theory Spec2Isabelle
  imports Complex_Main
begin

section \<open>JavaScript values, exceptions and strings\<close>

text \<open>
  The bridge service (\<^verbatim>\<open>src/unnamed/part_007\<close>, the \<^verbatim>\<open>HueBridgeService\<close> object) and
  the application component (\<^verbatim>\<open>src/unnamed/part_002\<close>, second version of \<^verbatim>\<open>App\<close>) are
  embedded as HOL functions. Strings are \<^typ>\<open>string\<close>: sequences of characters with code
  points below 256. Numbers are rationals, and arithmetic on them is exact. The only
  arithmetic the service performs is \<^verbatim>\<open>Math.round((brightness / 100) * 254)\<close>, on
  doubles. For the integer percentages 0 to 100 the double computation gives the integer
  the exact one gives (the two ties, 25 and 75, are exact in binary and every other value
  is at least 0.02 away from a rounding boundary); for other numbers the double product
  can fall on the other side of a tie, so the properties of the legacy brightness are
  stated for integer percentages only.

  A value of type \<open>js\<close> is a parsed JSON value or \<^verbatim>\<open>undefined\<close>. An object is the list
  of its own properties in enumeration order, with distinct keys.
\<close>

datatype js =
    JUndefined
  | JNull
  | JBool bool
  | JNum rat
  | JStr string
  | JArr "js list"
  | JObj "(string \<times> js) list"

text \<open>
  An exception is either raised by the runtime (\<^verbatim>\<open>fetch\<close>, \<^verbatim>\<open>res.json()\<close>, a property
  read on \<^verbatim>\<open>null\<close>), known by its \<^verbatim>\<open>name\<close>, or built by \<^verbatim>\<open>new Error(message)\<close>.
\<close>

datatype exn = Native string | Error string

fun exn_name :: "exn \<Rightarrow> string" where
  "exn_name (Native n) = n"
| "exn_name (Error m) = ''Error''"

definition TypeError :: exn where
  "TypeError = Native ''TypeError''"

definition bindE :: "'e + 'a \<Rightarrow> ('a \<Rightarrow> 'e + 'b) \<Rightarrow> 'e + 'b" where
  "bindE m f = (case m of Inl e \<Rightarrow> Inl e | Inr x \<Rightarrow> f x)"

fun mapE :: "('a \<Rightarrow> 'e + 'b) \<Rightarrow> 'a list \<Rightarrow> 'e + 'b list" where
  "mapE f [] = Inr []"
| "mapE f (x # xs) = bindE (f x) (\<lambda>y. bindE (mapE f xs) (\<lambda>ys. Inr (y # ys)))"

fun filterE :: "('a \<Rightarrow> 'e + bool) \<Rightarrow> 'a list \<Rightarrow> 'e + 'a list" where
  "filterE p [] = Inr []"
| "filterE p (x # xs) =
     bindE (p x) (\<lambda>keep. bindE (filterE p xs) (\<lambda>ys. Inr (if keep then x # ys else ys)))"

fun truthy :: "js \<Rightarrow> bool" where
  "truthy JUndefined = False"
| "truthy JNull = False"
| "truthy (JBool b) = b"
| "truthy (JNum q) = (q \<noteq> 0)"
| "truthy (JStr s) = (s \<noteq> [])"
| "truthy (JArr xs) = True"
| "truthy (JObj kvs) = True"

fun nullish :: "js \<Rightarrow> bool" where
  "nullish JUndefined = True"
| "nullish JNull = True"
| "nullish v = False"

fun digit :: "nat \<Rightarrow> char" where
  "digit n = char_of (48 + n)"

fun dec :: "nat \<Rightarrow> string" where
  "dec n = (if n < 10 then [digit n] else dec (n div 10) @ [digit (n mod 10)])"

text \<open>
  \<open>getprop v k\<close> is the read \<^verbatim>\<open>v.k\<close> for a property name \<open>k\<close> that is neither an array
  index, nor \<^verbatim>\<open>length\<close>, nor inherited from a prototype (every name the service reads is
  of that kind); \<open>optprop\<close> is \<^verbatim>\<open>v?.k\<close>; \<open>getidx v i\<close> is \<^verbatim>\<open>v[i]\<close> for a literal index.
\<close>

fun own :: "js \<Rightarrow> string \<Rightarrow> js" where
  "own (JObj kvs) k = (case map_of kvs k of None \<Rightarrow> JUndefined | Some v \<Rightarrow> v)"
| "own v k = JUndefined"

definition getprop :: "js \<Rightarrow> string \<Rightarrow> exn + js" where
  "getprop v k = (if nullish v then Inl TypeError else Inr (own v k))"

definition optprop :: "js \<Rightarrow> string \<Rightarrow> js" where
  "optprop v k = (if nullish v then JUndefined else own v k)"

fun getidx :: "js \<Rightarrow> nat \<Rightarrow> exn + js" where
  "getidx JUndefined i = Inl TypeError"
| "getidx JNull i = Inl TypeError"
| "getidx (JArr xs) i = Inr (if i < length xs then xs ! i else JUndefined)"
| "getidx (JStr s) i = Inr (if i < length s then JStr [s ! i] else JUndefined)"
| "getidx (JObj kvs) i = Inr (own (JObj kvs) (dec i))"
| "getidx v i = Inr JUndefined"

fun indexed :: "nat \<Rightarrow> 'a list \<Rightarrow> (string \<times> 'a) list" where
  "indexed i [] = []"
| "indexed i (x # xs) = (dec i, x) # indexed (Suc i) xs"

fun entries :: "js \<Rightarrow> exn + (string \<times> js) list" where
  "entries JUndefined = Inl TypeError"
| "entries JNull = Inl TypeError"
| "entries (JObj kvs) = Inr kvs"
| "entries (JArr xs) = Inr (indexed 0 xs)"
| "entries (JStr s) = Inr (indexed 0 (map (\<lambda>c. JStr [c]) s))"
| "entries v = Inr []"

fun isArray :: "js \<Rightarrow> bool" where
  "isArray (JArr xs) = True"
| "isArray v = False"

definition startsWith :: "string \<Rightarrow> string \<Rightarrow> bool" where
  "startsWith s p = (take (length p) s = p)"

definition is_ws :: "char \<Rightarrow> bool" where
  "is_ws c = (c = CHR 0x09 \<or> c = CHR 0x0A \<or> c = CHR 0x0B \<or> c = CHR 0x0C \<or> c = CHR 0x0D
                \<or> c = CHR '' '' \<or> c = CHR 0xA0)"

definition trim :: "string \<Rightarrow> string" where
  "trim s = rev (dropWhile is_ws (rev (dropWhile is_ws s)))"

text \<open>The interpolation \<^verbatim>\<open>${...}\<close> of a field that holds a string or \<^verbatim>\<open>null\<close>.\<close>

fun str_of :: "string option \<Rightarrow> string" where
  "str_of None = ''null''"
| "str_of (Some s) = s"

text \<open>\<^verbatim>\<open>Math.round\<close>: the nearest integer, a tie going up.\<close>

definition Math_round :: "rat \<Rightarrow> int" where
  "Math_round x = \<lfloor>x + 1 / 2\<rfloor>"

section \<open>Requests and the network\<close>

text \<open>
  A request is what \<^verbatim>\<open>fetch\<close> is called with: \<open>body\<close> is the value given to
  \<^verbatim>\<open>JSON.stringify\<close>, and \<open>abort_after\<close> the delay in milliseconds after which the
  request's abort signal fires, when it has one. A response carries its status and what
  \<^verbatim>\<open>res.json()\<close> gives: the parsed body, or the exception it rejects with.

  The network answers a request, knowing the requests sent before it, with a response
  or an exception. The list of requests sent is threaded through every operation.
\<close>

record request =
  req_method :: string
  url :: string
  headers :: "(string \<times> string) list"
  body :: "js option"
  abort_after :: "nat option"

record response =
  status :: nat
  json :: "exn + js"

type_synonym net = "request list \<Rightarrow> request \<Rightarrow> exn + response"

definition ok :: "response \<Rightarrow> bool" where
  "ok res = (200 \<le> status res \<and> status res \<le> 299)"

definition fetch :: "net \<Rightarrow> request \<Rightarrow> request list \<Rightarrow> (exn + response) \<times> request list" where
  "fetch nw r sent = (nw sent r, sent @ [r])"

section \<open>The bridge service\<close>

datatype api_version = V1 | V2

record hue =
  hue_bridgeIp :: "string option"
  hue_apiKey :: "string option"
  hue_connected :: bool
  hue_apiVersion :: "api_version option"

text \<open>The service object as the module creates it.\<close>

definition HueBridgeService :: hue where
  "HueBridgeService =
     \<lparr>hue_bridgeIp = None, hue_apiKey = None, hue_connected = False, hue_apiVersion = None\<rparr>"

text \<open>\<^verbatim>\<open>replace(/^https?:\/\//, "")\<close> and \<^verbatim>\<open>replace(/\/+$/, "")\<close>.\<close>

definition strip_scheme :: "string \<Rightarrow> string" where
  "strip_scheme s =
     (if startsWith s ''http://'' then drop 7 s
      else if startsWith s ''https://'' then drop 8 s
      else s)"

definition strip_trailing_slashes :: "string \<Rightarrow> string" where
  "strip_trailing_slashes s = rev (dropWhile (\<lambda>c. c = CHR ''/'') (rev s))"

definition configure :: "string \<Rightarrow> string \<Rightarrow> hue \<Rightarrow> hue" where
  "configure ip key h =
     (let cleanIp = trim ip;
          cleanIp = strip_scheme cleanIp;
          cleanIp = strip_trailing_slashes cleanIp
      in h\<lparr>hue_bridgeIp := Some cleanIp, hue_apiKey := Some (trim key),
            hue_connected := False, hue_apiVersion := None\<rparr>)"

text \<open>\<^verbatim>\<open>this._bridgeIp?.startsWith("localhost")\<close>: false when no host is stored.\<close>

definition is_localhost :: "hue \<Rightarrow> bool" where
  "is_localhost h =
     (case hue_bridgeIp h of None \<Rightarrow> False | Some ip \<Rightarrow> startsWith ip ''localhost'')"

definition bridgeOrigin :: "hue \<Rightarrow> string" where
  "bridgeOrigin h =
     (let protocol = (if is_localhost h then ''http'' else ''https'')
      in protocol @ ''://'' @ str_of (hue_bridgeIp h))"

definition baseUrlV2 :: "hue \<Rightarrow> string" where
  "baseUrlV2 h = bridgeOrigin h @ ''/clip/v2''"

definition baseUrlV1 :: "hue \<Rightarrow> string" where
  "baseUrlV1 h = bridgeOrigin h @ ''/api/'' @ str_of (hue_apiKey h)"

definition headersV2 :: "hue \<Rightarrow> (string \<times> string) list" where
  "headersV2 h =
     [(''hue-application-key'', str_of (hue_apiKey h)), (''Content-Type'', ''application/json'')]"

definition headersV1 :: "hue \<Rightarrow> (string \<times> string) list" where
  "headersV1 h = [(''Content-Type'', ''application/json'')]"

definition getCertAcceptUrl :: "hue \<Rightarrow> string" where
  "getCertAcceptUrl h = ''https://'' @ str_of (hue_bridgeIp h) @ ''/api''"

subsection \<open>The reachability probe\<close>

datatype reason = Cert | Network

datatype reach = Reachable | Unreachable reason

text \<open>
  The request of the probe: for a local host a bare \<^verbatim>\<open>fetch\<close> of the origin's
  \<^verbatim>\<open>/api\<close>; for any other host a \<^verbatim>\<open>GET\<close> of \<^verbatim>\<open>https://<host>/api\<close> whose abort
  signal fires after 5000 milliseconds.
\<close>

definition probe_request :: "hue \<Rightarrow> request" where
  "probe_request h =
     (if is_localhost h then
        \<lparr>req_method = ''GET'', url = bridgeOrigin h @ ''/api'', headers = [], body = None,
         abort_after = None\<rparr>
      else
        \<lparr>req_method = ''GET'', url = ''https://'' @ str_of (hue_bridgeIp h) @ ''/api'',
         headers = [], body = None, abort_after = Some 5000\<rparr>)"

definition checkReachability :: "net \<Rightarrow> hue \<times> request list \<Rightarrow> reach \<times> hue \<times> request list" where
  "checkReachability nw = (\<lambda>(h, sent).
     if is_localhost h then
       (case fetch nw (probe_request h) sent of
          (Inr res, sent') \<Rightarrow> (Reachable, h, sent')
        | (Inl err, sent') \<Rightarrow> (Unreachable Network, h, sent'))
     else
       (case fetch nw (probe_request h) sent of
          (Inr res, sent') \<Rightarrow> (Reachable, h, sent')
        | (Inl err, sent') \<Rightarrow>
            if exn_name err = ''AbortError'' then (Unreachable Network, h, sent')
            else (Unreachable Cert, h, sent')))"

subsection \<open>Connection test and version negotiation\<close>

text \<open>
  The failures \<^verbatim>\<open>testConnection\<close> returns, one per \<^verbatim>\<open>return\<close> of the source:
  \<^item> \<open>NeedsCert u\<close>: \<^verbatim>\<open>needsCert: true\<close>, \<^verbatim>\<open>certUrl: u\<close>, "Cannot reach the bridge, you
    need to accept its security certificate first.";
  \<^item> \<open>CannotReach\<close>: "Cannot reach the bridge. Check the IP address and make sure you're
    on the same network.";
  \<^item> \<open>InvalidApiKey\<close>: "Invalid API key.";
  \<^item> \<open>ApiKeyRejected d\<close>: "API key rejected: " followed by the text of \<open>d\<close>, the
    \<^verbatim>\<open>description\<close> of the embedded error;
  \<^item> \<open>ApiCallsFailed\<close>: "Connected to bridge but API calls failed. Check your API key."
  A success carries the negotiated version.
\<close>

datatype conn_error =
    NeedsCert string
  | CannotReach
  | InvalidApiKey
  | ApiKeyRejected js
  | ApiCallsFailed

type_synonym test_result = "conn_error + api_version"

definition v2_lights_request :: "hue \<Rightarrow> request" where
  "v2_lights_request h =
     \<lparr>req_method = ''GET'', url = baseUrlV2 h @ ''/resource/light'', headers = headersV2 h,
      body = None, abort_after = None\<rparr>"

definition v1_lights_request :: "hue \<Rightarrow> request" where
  "v1_lights_request h =
     \<lparr>req_method = ''GET'', url = baseUrlV1 h @ ''/lights'', headers = headersV1 h,
      body = None, abort_after = None\<rparr>"

text \<open>
  Step 2 of \<^verbatim>\<open>testConnection\<close>, the \<^verbatim>\<open>try\<close> block on the modern endpoint: \<open>Some r\<close> when
  the block returns \<open>r\<close>, \<open>None\<close> when control falls through to step 3 (another status, or
  an exception, which the \<^verbatim>\<open>catch\<close> discards).
\<close>

definition tryClipV2 :: "net \<Rightarrow> hue \<times> request list \<Rightarrow> test_result option \<times> hue \<times> request list" where
  "tryClipV2 nw = (\<lambda>(h, sent).
     case fetch nw (v2_lights_request h) sent of
       (Inl err, sent') \<Rightarrow> (None, h, sent')
     | (Inr res, sent') \<Rightarrow>
         if ok res then
           (Some (Inr V2), h\<lparr>hue_connected := True, hue_apiVersion := Some V2\<rparr>, sent')
         else if status res = 403 \<or> status res = 401 then
           (Some (Inl InvalidApiKey), h\<lparr>hue_connected := False\<rparr>, sent')
         else (None, h, sent'))"

text \<open>
  The test \<^verbatim>\<open>Array.isArray(data) && data[0]?.error\<close> and the value
  \<^verbatim>\<open>data[0].error.description\<close> of step 3.
\<close>

definition embedded_error :: "js \<Rightarrow> bool" where
  "embedded_error data =
     (isArray data \<and>
      (case getidx data 0 of Inl e \<Rightarrow> False | Inr first \<Rightarrow> truthy (optprop first ''error'')))"

definition error_description :: "js \<Rightarrow> exn + js" where
  "error_description data =
     bindE (getidx data 0) (\<lambda>first.
     bindE (getprop first ''error'') (\<lambda>err.
     getprop err ''description''))"

text \<open>Step 3, the \<^verbatim>\<open>try\<close> block on the legacy endpoint, in the same way.\<close>

definition fallbackV1 :: "net \<Rightarrow> hue \<times> request list \<Rightarrow> test_result option \<times> hue \<times> request list" where
  "fallbackV1 nw = (\<lambda>(h, sent).
     case fetch nw (v1_lights_request h) sent of
       (Inl err, sent') \<Rightarrow> (None, h, sent')
     | (Inr res, sent') \<Rightarrow>
         if ok res then
           (case json res of
              Inl err \<Rightarrow> (None, h, sent')
            | Inr data \<Rightarrow>
                if embedded_error data then
                  (case error_description data of
                     Inl err \<Rightarrow> (None, h\<lparr>hue_connected := False\<rparr>, sent')
                   | Inr d \<Rightarrow> (Some (Inl (ApiKeyRejected d)), h\<lparr>hue_connected := False\<rparr>, sent'))
                else
                  (Some (Inr V1), h\<lparr>hue_connected := True, hue_apiVersion := Some V1\<rparr>, sent'))
         else (None, h, sent'))"

definition testConnection :: "net \<Rightarrow> hue \<times> request list \<Rightarrow> test_result \<times> hue \<times> request list" where
  "testConnection nw w =
     (case checkReachability nw w of
        (Unreachable Cert, h, sent) \<Rightarrow>
          (Inl (NeedsCert (getCertAcceptUrl h)), h\<lparr>hue_connected := False\<rparr>, sent)
      | (Unreachable Network, h, sent) \<Rightarrow>
          (Inl CannotReach, h\<lparr>hue_connected := False\<rparr>, sent)
      | (Reachable, w1) \<Rightarrow>
          (case tryClipV2 nw w1 of
             (Some r, w2) \<Rightarrow> (r, w2)
           | (None, w2) \<Rightarrow>
               (case fallbackV1 nw w2 of
                  (Some r, w3) \<Rightarrow> (r, w3)
                | (None, h, sent) \<Rightarrow> (Inl ApiCallsFailed, h\<lparr>hue_connected := False\<rparr>, sent))))"

subsection \<open>Light and room operations\<close>

text \<open>
  Every operation sends one request and turns the outcome into a value or an exception.
  None of them assigns a field of the service; the service is returned as it was. The
  colour operations are given a colour and a brightness (the source's default brightness
  of 100 is the caller's to pass).
\<close>

definition get_request :: "string \<Rightarrow> (string \<times> string) list \<Rightarrow> request" where
  "get_request u hs =
     \<lparr>req_method = ''GET'', url = u, headers = hs, body = None, abort_after = None\<rparr>"

definition put_request :: "string \<Rightarrow> (string \<times> string) list \<Rightarrow> js \<Rightarrow> request" where
  "put_request u hs b =
     \<lparr>req_method = ''PUT'', url = u, headers = hs, body = Some b, abort_after = None\<rparr>"

text \<open>The callback of \<^verbatim>\<open>getLights\<close> that normalises one legacy entry \<^verbatim>\<open>[id, light]\<close>.\<close>

definition lightOfV1 :: "string \<times> js \<Rightarrow> exn + js" where
  "lightOfV1 = (\<lambda>(lid, light).
     bindE (getprop light ''name'') (\<lambda>name.
     bindE (getprop light ''state'') (\<lambda>state.
     bindE (if truthy (optprop state ''xy'') then
              bindE (getprop state ''xy'') (\<lambda>xy.
              bindE (getidx xy 0) (\<lambda>x0.
              bindE (getidx xy 1) (\<lambda>y0.
              Inr (JObj [(''xy'', JObj [(''x'', x0), (''y'', y0)])]))))
            else Inr JUndefined) (\<lambda>color.
     Inr (JObj [(''id'', JStr lid),
                (''metadata'', JObj [(''name'', name)]),
                (''on'', JObj [(''on'', optprop state ''on'')]),
                (''dimming'', JObj [(''brightness'', optprop state ''bri'')]),
                (''color'', color)])))))"

definition getLights :: "net \<Rightarrow> hue \<times> request list \<Rightarrow> (exn + js) \<times> hue \<times> request list" where
  "getLights nw = (\<lambda>(h, sent).
     if hue_apiVersion h = Some V2 then
       (case fetch nw (get_request (baseUrlV2 h @ ''/resource/light'') (headersV2 h)) sent of
          (out, sent') \<Rightarrow>
            (bindE out (\<lambda>res.
               if \<not> ok res then Inl (Error ''Failed to fetch lights'')
               else bindE (json res) (\<lambda>data.
                    bindE (getprop data ''data'') (\<lambda>d.
                    Inr (if truthy d then d else JArr [])))), h, sent'))
     else
       (case fetch nw (get_request (baseUrlV1 h @ ''/lights'') (headersV1 h)) sent of
          (out, sent') \<Rightarrow>
            (bindE out (\<lambda>res.
               if \<not> ok res then Inl (Error ''Failed to fetch lights'')
               else bindE (json res) (\<lambda>data.
                    bindE (entries data) (\<lambda>es.
                    bindE (mapE lightOfV1 es) (\<lambda>ls.
                    Inr (JArr ls))))), h, sent')))"

text \<open>
  The callbacks of \<^verbatim>\<open>getRooms\<close> on a legacy entry \<^verbatim>\<open>[id, group]\<close>: the filter
  \<^verbatim>\<open>group.type === "Room"\<close> and the normalisation. \<^verbatim>\<open>(group.lights || []).map(...)\<close>
  raises a \<^verbatim>\<open>TypeError\<close> on a truthy value that is not an array.
\<close>

definition isRoomV1 :: "string \<times> js \<Rightarrow> exn + bool" where
  "isRoomV1 = (\<lambda>(gid, group).
     bindE (getprop group ''type'') (\<lambda>t. Inr (t = JStr ''Room'')))"

definition roomOfV1 :: "string \<times> js \<Rightarrow> exn + js" where
  "roomOfV1 = (\<lambda>(gid, group).
     bindE (getprop group ''name'') (\<lambda>name.
     bindE (getprop group ''lights'') (\<lambda>ls.
     bindE (if truthy ls then
              (case ls of
                 JArr lids \<Rightarrow>
                   Inr (map (\<lambda>lid. JObj [(''rtype'', JStr ''device''), (''rid'', lid)]) lids)
               | _ \<Rightarrow> Inl TypeError)
            else Inr []) (\<lambda>children.
     Inr (JObj [(''id'', JStr gid),
                (''metadata'', JObj [(''name'', name)]),
                (''children'', JArr children),
                (''services'',
                   JArr [JObj [(''rtype'', JStr ''grouped_light''), (''rid'', JStr gid)]])])))))"

definition getRooms :: "net \<Rightarrow> hue \<times> request list \<Rightarrow> (exn + js) \<times> hue \<times> request list" where
  "getRooms nw = (\<lambda>(h, sent).
     if hue_apiVersion h = Some V2 then
       (case fetch nw (get_request (baseUrlV2 h @ ''/resource/room'') (headersV2 h)) sent of
          (out, sent') \<Rightarrow>
            (bindE out (\<lambda>res.
               if \<not> ok res then Inl (Error ''Failed to fetch rooms'')
               else bindE (json res) (\<lambda>data.
                    bindE (getprop data ''data'') (\<lambda>d.
                    Inr (if truthy d then d else JArr [])))), h, sent'))
     else
       (case fetch nw (get_request (baseUrlV1 h @ ''/groups'') (headersV1 h)) sent of
          (out, sent') \<Rightarrow>
            (bindE out (\<lambda>res.
               if \<not> ok res then Inl (Error ''Failed to fetch rooms'')
               else bindE (json res) (\<lambda>data.
                    bindE (entries data) (\<lambda>es.
                    bindE (filterE isRoomV1 es) (\<lambda>rs.
                    bindE (mapE roomOfV1 rs) (\<lambda>rooms.
                    Inr (JArr rooms)))))), h, sent')))"

record color =
  xy_x :: rat
  xy_y :: rat

text \<open>
  The two request bodies that set a colour and a brightness. In the legacy body the
  product \<open>brightness / 100 * 254\<close> is the exact one; it stands for the code's double
  product at the integer percentages 0 to 100.
\<close>

definition bodyV2 :: "color \<Rightarrow> rat \<Rightarrow> js" where
  "bodyV2 c brightness =
     JObj [(''on'', JObj [(''on'', JBool True)]),
           (''dimming'', JObj [(''brightness'', JNum brightness)]),
           (''color'', JObj [(''xy'', JObj [(''x'', JNum (xy_x c)), (''y'', JNum (xy_y c))])])]"

definition bodyV1 :: "color \<Rightarrow> rat \<Rightarrow> js" where
  "bodyV1 c brightness =
     JObj [(''on'', JBool True),
           (''bri'', JNum (of_int (Math_round ((brightness / 100) * 254)))),
           (''xy'', JArr [JNum (xy_x c), JNum (xy_y c)])]"

definition setLightColor ::
  "net \<Rightarrow> string \<Rightarrow> color \<Rightarrow> rat \<Rightarrow> hue \<times> request list \<Rightarrow> (exn + js) \<times> hue \<times> request list" where
  "setLightColor nw lightId c brightness = (\<lambda>(h, sent).
     if hue_apiVersion h = Some V2 then
       (case fetch nw (put_request (baseUrlV2 h @ ''/resource/light/'' @ lightId) (headersV2 h)
                         (bodyV2 c brightness)) sent of
          (out, sent') \<Rightarrow>
            (bindE out (\<lambda>res.
               if \<not> ok res then Inl (Error (''Failed to set light '' @ lightId))
               else json res), h, sent'))
     else
       (case fetch nw (put_request (baseUrlV1 h @ ''/lights/'' @ lightId @ ''/state'') (headersV1 h)
                         (bodyV1 c brightness)) sent of
          (out, sent') \<Rightarrow>
            (bindE out (\<lambda>res.
               if \<not> ok res then Inl (Error (''Failed to set light '' @ lightId))
               else json res), h, sent')))"

definition setGroupedLightColor ::
  "net \<Rightarrow> string \<Rightarrow> color \<Rightarrow> rat \<Rightarrow> hue \<times> request list \<Rightarrow> (exn + js) \<times> hue \<times> request list" where
  "setGroupedLightColor nw groupId c brightness = (\<lambda>(h, sent).
     if hue_apiVersion h = Some V2 then
       (case fetch nw (put_request (baseUrlV2 h @ ''/resource/grouped_light/'' @ groupId)
                         (headersV2 h) (bodyV2 c brightness)) sent of
          (out, sent') \<Rightarrow>
            (bindE out (\<lambda>res.
               if \<not> ok res then Inl (Error (''Failed to set group '' @ groupId))
               else json res), h, sent'))
     else
       (case fetch nw (put_request (baseUrlV1 h @ ''/groups/'' @ groupId @ ''/action'')
                         (headersV1 h) (bodyV1 c brightness)) sent of
          (out, sent') \<Rightarrow>
            (bindE out (\<lambda>res.
               if \<not> ok res then Inl (Error (''Failed to set group '' @ groupId))
               else json res), h, sent')))"

definition turnOff ::
  "net \<Rightarrow> string \<Rightarrow> hue \<times> request list \<Rightarrow> (exn + js) \<times> hue \<times> request list" where
  "turnOff nw lightId = (\<lambda>(h, sent).
     if hue_apiVersion h = Some V2 then
       (case fetch nw (put_request (baseUrlV2 h @ ''/resource/light/'' @ lightId) (headersV2 h)
                         (JObj [(''on'', JObj [(''on'', JBool False)])])) sent of
          (out, sent') \<Rightarrow>
            (bindE out (\<lambda>res.
               if \<not> ok res then Inl (Error (''Failed to turn off '' @ lightId))
               else json res), h, sent'))
     else
       (case fetch nw (put_request (baseUrlV1 h @ ''/lights/'' @ lightId @ ''/state'') (headersV1 h)
                         (JObj [(''on'', JBool False)])) sent of
          (out, sent') \<Rightarrow>
            (bindE out (\<lambda>res.
               if \<not> ok res then Inl (Error (''Failed to turn off '' @ lightId))
               else json res), h, sent')))"

definition turnOffGroup ::
  "net \<Rightarrow> string \<Rightarrow> hue \<times> request list \<Rightarrow> (exn + js) \<times> hue \<times> request list" where
  "turnOffGroup nw groupId = (\<lambda>(h, sent).
     if hue_apiVersion h = Some V2 then
       (case fetch nw (put_request (baseUrlV2 h @ ''/resource/grouped_light/'' @ groupId)
                         (headersV2 h) (JObj [(''on'', JObj [(''on'', JBool False)])])) sent of
          (out, sent') \<Rightarrow>
            (bindE out (\<lambda>res.
               if \<not> ok res then Inl (Error (''Failed to turn off group '' @ groupId))
               else json res), h, sent'))
     else
       (case fetch nw (put_request (baseUrlV1 h @ ''/groups/'' @ groupId @ ''/action'')
                         (headersV1 h) (JObj [(''on'', JBool False)])) sent of
          (out, sent') \<Rightarrow>
            (bindE out (\<lambda>res.
               if \<not> ok res then Inl (Error (''Failed to turn off group '' @ groupId))
               else json res), h, sent')))"

definition signalLight ::
  "net \<Rightarrow> string \<Rightarrow> hue \<times> request list \<Rightarrow> (exn + js) \<times> hue \<times> request list" where
  "signalLight nw lightId = (\<lambda>(h, sent).
     if hue_apiVersion h = Some V2 then
       (case fetch nw (put_request (baseUrlV2 h @ ''/resource/light/'' @ lightId) (headersV2 h)
                         (JObj [(''alert'', JObj [(''action'', JStr ''breathe'')])])) sent of
          (out, sent') \<Rightarrow> (bindE out json, h, sent'))
     else
       (case fetch nw (put_request (baseUrlV1 h @ ''/lights/'' @ lightId @ ''/state'') (headersV1 h)
                         (JObj [(''alert'', JStr ''lselect'')])) sent of
          (out, sent') \<Rightarrow> (bindE out json, h, sent')))"

text \<open>
  A session after the connection test: any sequence of light and room operations, each
  run to its end (value or exception) before the next starts.
\<close>

datatype operation =
    GetLights
  | GetRooms
  | SetLightColor string color rat
  | SetGroupedLightColor string color rat
  | TurnOff string
  | TurnOffGroup string
  | SignalLight string

fun run_operation ::
  "net \<Rightarrow> operation \<Rightarrow> hue \<times> request list \<Rightarrow> (exn + js) \<times> hue \<times> request list" where
  "run_operation nw GetLights w = getLights nw w"
| "run_operation nw GetRooms w = getRooms nw w"
| "run_operation nw (SetLightColor i c b) w = setLightColor nw i c b w"
| "run_operation nw (SetGroupedLightColor i c b) w = setGroupedLightColor nw i c b w"
| "run_operation nw (TurnOff i) w = turnOff nw i w"
| "run_operation nw (TurnOffGroup i) w = turnOffGroup nw i w"
| "run_operation nw (SignalLight i) w = signalLight nw i w"

fun run_session :: "net \<Rightarrow> operation list \<Rightarrow> hue \<times> request list \<Rightarrow> hue \<times> request list" where
  "run_session nw [] w = w"
| "run_session nw (opn # ops) w = run_session nw ops (snd (run_operation nw opn w))"

section \<open>The application component\<close>

text \<open>
  The state of \<^verbatim>\<open>App\<close> (the values of its \<^verbatim>\<open>useState\<close> hooks) and of the activity log
  hook. The dash of the display texts (U+2014) is written as its three UTF-8 bytes; no
  code inspects these texts. The timer that hides the toast is not modelled.
\<close>

record log_entry =
  log_id :: nat
  timestamp :: nat
  roomName :: string
  signalLabel :: string
  success :: bool

text \<open>
  \<^verbatim>\<open>addLog(roomName, signalLabel, success)\<close>, the updater given to \<^verbatim>\<open>setLogs\<close>;
  \<open>t_id\<close> is what \<^verbatim>\<open>Date.now()\<close> reads and \<open>t_stamp\<close> what \<^verbatim>\<open>new Date()\<close> reads,
  both in milliseconds. \<^verbatim>\<open>prev.slice(0, 49)\<close> is \<open>take 49 prev\<close>.
\<close>

definition addLog ::
  "nat \<Rightarrow> nat \<Rightarrow> string \<Rightarrow> string \<Rightarrow> bool \<Rightarrow> log_entry list \<Rightarrow> log_entry list" where
  "addLog t_id t_stamp rn sl sc prev =
     \<lparr>log_id = t_id, timestamp = t_stamp, roomName = rn, signalLabel = sl, success = sc\<rparr>
       # take 49 prev"

text \<open>A sequence of calls of \<^verbatim>\<open>addLog\<close>, the first call first.\<close>

fun addLogs :: "log_entry list \<Rightarrow> log_entry list \<Rightarrow> log_entry list" where
  "addLogs [] prev = prev"
| "addLogs (e # es) prev =
     addLogs es (addLog (log_id e) (timestamp e) (roomName e) (signalLabel e) (success e) prev)"

record room =
  room_id :: string
  room_name :: string
  lights :: "string list"
  groupedLightId :: "string option"

definition emdash :: string where
  "emdash = [CHR 0xE2, CHR 0x80, CHR 0x94]"

definition DEMO_ROOMS :: "room list" where
  "DEMO_ROOMS =
     [\<lparr>room_id = ''room-1'', room_name = ''Room 1 '' @ emdash @ '' Consultation'',
       lights = [''light-1a''], groupedLightId = Some ''group-1''\<rparr>,
      \<lparr>room_id = ''room-2'', room_name = ''Room 2 '' @ emdash @ '' Examination'',
       lights = [''light-2a'', ''light-2b''], groupedLightId = Some ''group-2''\<rparr>,
      \<lparr>room_id = ''room-3'', room_name = ''Room 3 '' @ emdash @ '' Treatment'',
       lights = [''light-3a''], groupedLightId = Some ''group-3''\<rparr>,
      \<lparr>room_id = ''room-4'', room_name = ''Room 4 '' @ emdash @ '' Waiting Area'',
       lights = [''light-4a'', ''light-4b''], groupedLightId = Some ''group-4''\<rparr>]"

record app =
  view :: string
  bridgeIp :: string
  apiKey :: string
  connected :: bool
  demoMode :: bool
  connectionError :: string
  needsCert :: bool
  certUrl :: string
  apiVersion :: string
  rooms :: "room list"
  roomSignals :: "string \<rightharpoonup> string"
  toast :: "(string \<times> string) option"
  logs :: "log_entry list"

definition showToast :: "string \<Rightarrow> string \<Rightarrow> app \<Rightarrow> app" where
  "showToast message type a = a\<lparr>toast := Some (message, type)\<rparr>"

text \<open>
  \<^verbatim>\<open>handleDisconnect\<close>, on the component's state and the service object of the module.
\<close>

definition handleDisconnect :: "app \<times> hue \<Rightarrow> app \<times> hue" where
  "handleDisconnect = (\<lambda>(a, service).
     (showToast (''Disconnected '' @ emdash @ '' demo mode'') ''info''
        (a\<lparr>connected := False, demoMode := True, apiVersion := [], rooms := DEMO_ROOMS,
           roomSignals := Map.empty\<rparr>),
      service))"

section \<open>Requests of the list operations, and scenarios\<close>

text \<open>The request \<^verbatim>\<open>getLights\<close> sends, and the one \<^verbatim>\<open>getRooms\<close> sends.\<close>

definition lights_request :: "hue \<Rightarrow> request" where
  "lights_request h =
     (if hue_apiVersion h = Some V2
      then get_request (baseUrlV2 h @ ''/resource/light'') (headersV2 h)
      else get_request (baseUrlV1 h @ ''/lights'') (headersV1 h))"

definition rooms_request :: "hue \<Rightarrow> request" where
  "rooms_request h =
     (if hue_apiVersion h = Some V2
      then get_request (baseUrlV2 h @ ''/resource/room'') (headersV2 h)
      else get_request (baseUrlV1 h @ ''/groups'') (headersV1 h))"

text \<open>
  Networks for concrete runs: a bridge that answers every request with the same status
  and body, and a host at which every request fails with the same exception.
\<close>

definition respond :: "nat \<Rightarrow> exn + js \<Rightarrow> net" where
  "respond st b = (\<lambda>sent r. Inr \<lparr>status = st, json = b\<rparr>)"

definition refuse :: "exn \<Rightarrow> net" where
  "refuse e = (\<lambda>sent r. Inl e)"

text \<open>A service that a successful connection test left with the given version.\<close>

definition negotiated :: "api_version \<Rightarrow> hue" where
  "negotiated v =
     \<lparr>hue_bridgeIp = Some ''10.0.0.5'', hue_apiKey = Some ''token'', hue_connected = True,
      hue_apiVersion = Some v\<rparr>"

text \<open>The component's state while connected to that bridge.\<close>

definition connected_app :: app where
  "connected_app =
     \<lparr>view = ''settings'', bridgeIp = ''10.0.0.5'', apiKey = ''token'', connected = True,
      demoMode = False, connectionError = [], needsCert = False, certUrl = [],
      apiVersion = ''v2'', rooms = [], roomSignals = Map.empty, toast = None, logs = []\<rparr>"

section \<open>Properties of the activity log\<close>

lemma entry_eta:
  "\<lparr>log_id = log_id e, timestamp = timestamp e, roomName = roomName e,
    signalLabel = signalLabel e, success = success e\<rparr> = (e::log_entry)"
  by simp

lemma take_append_cons_take:
  "take 50 (xs @ e # take 49 ys) = take 50 (xs @ e # ys)"
  by (cases "length xs < 50") (auto simp: take_Cons' min_def)

lemma addLogs_take:
  "length prev \<le> 50 \<Longrightarrow> addLogs es prev = take 50 (rev es @ prev)"
proof (induction es arbitrary: prev)
  case Nil
  then show ?case by simp
next
  case (Cons e es)
  have "addLogs (e # es) prev = addLogs es (e # take 49 prev)"
    by (simp add: addLog_def entry_eta)
  also have "\<dots> = take 50 (rev es @ e # take 49 prev)"
    by (rule Cons.IH) simp
  also have "\<dots> = take 50 (rev (e # es) @ prev)"
    using take_append_cons_take [of "rev es" e prev] by simp
  finally show ?case .
qed

text \<open>
  Claim C10. Starting from the empty log, after any sequence of \<^verbatim>\<open>addLog\<close> calls the log
  is the 50 newest entries, newest first: its length is the number of calls, capped at
  50. One more call puts its entry at the front and keeps the first 49 of the entries
  before it; whatever the log held, the log it leaves has at most 50 entries.
\<close>

theorem activity_log_bounded:
  "addLogs calls [] = take 50 (rev calls) \<and>
   length (addLogs calls []) = min 50 (length calls) \<and>
   addLogs (calls @ [e]) [] = e # take 49 (addLogs calls []) \<and>
   length (addLog i t rn sl sc prev) = min 50 (Suc (length prev))"
proof -
  have a: "addLogs cs [] = take 50 (rev cs)" for cs
    using addLogs_take [of "[]" cs] by simp
  have "addLogs (calls @ [e]) [] = e # take 49 (rev calls)"
    by (simp add: a take_Cons')
  moreover have "length (addLog i t rn sl sc prev) = min 50 (Suc (length prev))"
    by (simp add: addLog_def min_def)
  ultimately show ?thesis
    by (simp add: a min.commute)
qed

section \<open>Properties of configure\<close>

lemma strip_trailing_slashes_decomp:
  "\<exists>n. s = strip_trailing_slashes s @ replicate n (CHR ''/'')"
proof -
  define d where "d = dropWhile (\<lambda>c. c = CHR ''/'') (rev s)"
  define k where "k = takeWhile (\<lambda>c. c = CHR ''/'') (rev s)"
  have "replicate (length k) (CHR ''/'') = k"
    unfolding k_def by (rule replicate_length_same) (auto dest: set_takeWhileD)
  then have k: "rev k = replicate (length k) (CHR ''/'')"
    by (metis rev_replicate)
  have "rev s = k @ d"
    unfolding k_def d_def by simp
  then have "rev (rev s) = rev d @ rev k"
    by (simp only: rev_append)
  then have "s = strip_trailing_slashes s @ replicate (length k) (CHR ''/'')"
    by (simp only: rev_rev_ident k strip_trailing_slashes_def d_def)
  then show ?thesis ..
qed

lemma strip_trailing_slashes_last:
  "\<not> (strip_trailing_slashes s \<noteq> [] \<and> last (strip_trailing_slashes s) = CHR ''/'')"
proof
  define d where "d = dropWhile (\<lambda>c. c = CHR ''/'') (rev s)"
  have r: "strip_trailing_slashes s = rev d"
    by (simp only: strip_trailing_slashes_def d_def)
  assume "strip_trailing_slashes s \<noteq> [] \<and> last (strip_trailing_slashes s) = CHR ''/''"
  then have ne: "d \<noteq> []" and l: "last (rev d) = CHR ''/''"
    unfolding r by simp_all
  from ne have "hd d \<noteq> CHR ''/''"
    unfolding d_def by (rule hd_dropWhile)
  moreover from ne l have "hd d = CHR ''/''"
    by (simp only: last_rev)
  ultimately show False by simp
qed

lemma startsWith_append: "startsWith t p \<Longrightarrow> length p = n \<Longrightarrow> t = p @ drop n t"
  unfolding startsWith_def by (metis append_take_drop_id)

lemma strip_scheme_decomp:
  "\<exists>scheme. (scheme = [] \<or> scheme = ''http://'' \<or> scheme = ''https://'') \<and>
      t = scheme @ strip_scheme t \<and>
      (scheme = [] \<longrightarrow> \<not> startsWith t ''http://'' \<and> \<not> startsWith t ''https://'')"
proof (cases "startsWith t ''http://''")
  case True
  then have e: "strip_scheme t = drop 7 t"
    by (simp add: strip_scheme_def)
  have "t = ''http://'' @ drop 7 t"
    by (rule startsWith_append [OF True]) simp
  then have "t = ''http://'' @ strip_scheme t"
    unfolding e .
  then show ?thesis by blast
next
  case False
  show ?thesis
  proof (cases "startsWith t ''https://''")
    case True
    with False have e: "strip_scheme t = drop 8 t"
      by (simp add: strip_scheme_def)
    have "t = ''https://'' @ drop 8 t"
      by (rule startsWith_append [OF True]) simp
    then have "t = ''https://'' @ strip_scheme t"
      unfolding e .
    then show ?thesis by blast
  next
    case no: False
    with False have "strip_scheme t = t"
      by (simp add: strip_scheme_def)
    then have "t = [] @ strip_scheme t"
      by simp
    with False no show ?thesis by blast
  qed
qed

text \<open>
  Claim C6, as the code has it. Whatever the service held before (a connected one
  included), \<^verbatim>\<open>configure(ip, apiKey)\<close> leaves the connected flag false and the negotiated
  version unset, and stores the trimmed credential. The stored host is the trimmed input
  without one leading \<^verbatim>\<open>http://\<close> or \<^verbatim>\<open>https://\<close>, in lower case as the regular
  expression matches it, and without its trailing slashes: the trimmed input is
  \<^verbatim>\<open>http://\<close>, \<^verbatim>\<open>https://\<close>, or nothing when it starts with neither, then the stored
  host, then slashes only, and the stored host does not end with a slash. A prefix of any
  other form is kept as part of the host.
\<close>

theorem configure_resets:
  "hue_connected (configure ip key h) = False \<and>
   hue_apiVersion (configure ip key h) = None \<and>
   hue_apiKey (configure ip key h) = Some (trim key) \<and>
   (\<exists>host scheme n.
      hue_bridgeIp (configure ip key h) = Some host \<and>
      \<not> (host \<noteq> [] \<and> last host = CHR ''/'') \<and>
      (scheme = [] \<or> scheme = ''http://'' \<or> scheme = ''https://'') \<and>
      trim ip = scheme @ host @ replicate n (CHR ''/'') \<and>
      (scheme = [] \<longrightarrow> \<not> startsWith (trim ip) ''http://'' \<and> \<not> startsWith (trim ip) ''https://''))"
proof -
  define t where "t = trim ip"
  define host where "host = strip_trailing_slashes (strip_scheme t)"
  obtain scheme where s: "scheme = [] \<or> scheme = ''http://'' \<or> scheme = ''https://''"
    "t = scheme @ strip_scheme t"
    "scheme = [] \<longrightarrow> \<not> startsWith t ''http://'' \<and> \<not> startsWith t ''https://''"
    using strip_scheme_decomp [of t] by blast
  obtain n where n: "strip_scheme t = host @ replicate n (CHR ''/'')"
    unfolding host_def using strip_trailing_slashes_decomp [of "strip_scheme t"] by blast
  have "t = scheme @ strip_scheme t" by (rule s(2))
  also have "scheme @ strip_scheme t = scheme @ host @ replicate n (CHR ''/'')"
    by (rule arg_cong [OF n])
  finally have t: "t = scheme @ host @ replicate n (CHR ''/'')" .
  have l: "\<not> (host \<noteq> [] \<and> last host = CHR ''/'')"
    unfolding host_def by (rule strip_trailing_slashes_last)
  have b: "hue_bridgeIp (configure ip key h) = Some host"
    by (simp add: configure_def host_def t_def)
  have "\<exists>host scheme n.
      hue_bridgeIp (configure ip key h) = Some host \<and>
      \<not> (host \<noteq> [] \<and> last host = CHR ''/'') \<and>
      (scheme = [] \<or> scheme = ''http://'' \<or> scheme = ''https://'') \<and>
      t = scheme @ host @ replicate n (CHR ''/'') \<and>
      (scheme = [] \<longrightarrow> \<not> startsWith t ''http://'' \<and> \<not> startsWith t ''https://'')"
    using b l s(1) t s(3) by blast
  moreover have "hue_connected (configure ip key h) = False"
    "hue_apiVersion (configure ip key h) = None"
    "hue_apiKey (configure ip key h) = Some (trim key)"
    by (simp_all add: configure_def)
  ultimately show ?thesis
    unfolding t_def by blast
qed

text \<open>
  On a service that is connected with the modern protocol, configuring the host
  \<^verbatim>\<open>" https://192.168.1.10:443// "\<close> stores \<^verbatim>\<open>192.168.1.10:443\<close> and resets the rest.
\<close>

theorem configure_resets_witness:
  "hue_connected (negotiated V2) = True \<and>
   hue_connected (configure '' https://192.168.1.10:443// '' '' token '' (negotiated V2)) = False \<and>
   hue_apiVersion (configure '' https://192.168.1.10:443// '' '' token '' (negotiated V2)) = None \<and>
   hue_apiKey (configure '' https://192.168.1.10:443// '' '' token '' (negotiated V2)) = Some ''token'' \<and>
   hue_bridgeIp (configure '' https://192.168.1.10:443// '' '' token '' (negotiated V2)) =
     Some ''192.168.1.10:443''"
proof -
  have "trim '' token '' = ''token''"
    by code_simp
  moreover have "hue_bridgeIp (configure '' https://192.168.1.10:443// '' '' token '' (negotiated V2)) =
     Some ''192.168.1.10:443''"
    by code_simp
  moreover have "hue_connected (negotiated V2) = True"
    by (simp add: negotiated_def)
  ultimately show ?thesis
    using configure_resets [of "'' https://192.168.1.10:443// ''" "'' token ''" "negotiated V2"]
    by simp
qed

text \<open>
  A host entered with its scheme in upper case: the trailing slash goes and the scheme
  stays in the stored host.
\<close>

theorem configure_scheme_counterexample:
  "hue_bridgeIp (configure ''HTTP://Bridge.local/'' ''token'' HueBridgeService) =
     Some ''HTTP://Bridge.local''"
  by code_simp

text \<open>A scheme other than the two of the web is kept in the same way.\<close>

lemma configure_keeps_ftp:
  "hue_bridgeIp (configure ''ftp://x/'' ''token'' HueBridgeService) = Some ''ftp://x''"
  by code_simp

section \<open>Properties of the reachability probe\<close>

lemma probe_request_nonlocal:
  "\<not> is_localhost h \<Longrightarrow>
   probe_request h =
     \<lparr>req_method = ''GET'', url = ''https://'' @ str_of (hue_bridgeIp h) @ ''/api'',
      headers = [], body = None, abort_after = Some 5000\<rparr>"
  by (simp add: probe_request_def)

lemma checkReachability_sent:
  "snd (snd (checkReachability nw (h, sent))) = sent @ [probe_request h]"
  by (simp add: checkReachability_def fetch_def split: sum.split)

lemma checkReachability_service:
  "fst (snd (checkReachability nw (h, sent))) = h"
  by (simp add: checkReachability_def fetch_def split: sum.split)

lemma checkReachability_result:
  "fst (checkReachability nw (h, sent)) =
     (case nw sent (probe_request h) of
        Inr res \<Rightarrow> Reachable
      | Inl e \<Rightarrow> Unreachable (if is_localhost h \<or> exn_name e = ''AbortError'' then Network else Cert))"
  by (simp add: checkReachability_def fetch_def split: sum.split)

lemma remote_not_local: "\<not> is_localhost (configure ''10.0.0.5'' ''token'' HueBridgeService)"
  by code_simp

text \<open>
  Claim C1. For a host that is not local, the probe sends exactly one request, a
  \<^verbatim>\<open>GET\<close> of \<^verbatim>\<open>https://<host>/api\<close> whose abort signal fires after 5000 milliseconds
  (5 seconds). The probe answers reachable exactly when the request completes with a
  response, whatever its status; unreachable for the network exactly when the request
  fails with an \<^verbatim>\<open>AbortError\<close>; unreachable for the certificate exactly when it fails
  with any other exception.
\<close>

theorem checkReachability_nonlocal:
  assumes "\<not> is_localhost h"
  shows "probe_request h =
           \<lparr>req_method = ''GET'', url = ''https://'' @ str_of (hue_bridgeIp h) @ ''/api'',
            headers = [], body = None, abort_after = Some 5000\<rparr> \<and>
         snd (snd (checkReachability nw (h, sent))) = sent @ [probe_request h] \<and>
         (fst (checkReachability nw (h, sent)) = Reachable \<longleftrightarrow>
            (\<exists>res. nw sent (probe_request h) = Inr res)) \<and>
         (fst (checkReachability nw (h, sent)) = Unreachable Network \<longleftrightarrow>
            (\<exists>e. nw sent (probe_request h) = Inl e \<and> exn_name e = ''AbortError'')) \<and>
         (fst (checkReachability nw (h, sent)) = Unreachable Cert \<longleftrightarrow>
            (\<exists>e. nw sent (probe_request h) = Inl e \<and> exn_name e \<noteq> ''AbortError''))"
proof -
  have "fst (checkReachability nw (h, sent)) =
     (case nw sent (probe_request h) of
        Inr res \<Rightarrow> Reachable
      | Inl e \<Rightarrow> Unreachable (if exn_name e = ''AbortError'' then Network else Cert))"
    using assms by (simp add: checkReachability_result split: sum.split)
  then have
    "fst (checkReachability nw (h, sent)) = Reachable \<longleftrightarrow>
            (\<exists>res. nw sent (probe_request h) = Inr res)"
    "fst (checkReachability nw (h, sent)) = Unreachable Network \<longleftrightarrow>
            (\<exists>e. nw sent (probe_request h) = Inl e \<and> exn_name e = ''AbortError'')"
    "fst (checkReachability nw (h, sent)) = Unreachable Cert \<longleftrightarrow>
            (\<exists>e. nw sent (probe_request h) = Inl e \<and> exn_name e \<noteq> ''AbortError'')"
    by (cases "nw sent (probe_request h)"; simp)+
  then show ?thesis
    using probe_request_nonlocal [OF assms] checkReachability_sent by blast
qed

text \<open>
  A bridge at \<^verbatim>\<open>10.0.0.5\<close> that answers everything with status 500 is reachable, and the
  probe has sent one request, to \<^verbatim>\<open>https://10.0.0.5/api\<close>.
\<close>

theorem checkReachability_nonlocal_witness:
  "\<not> is_localhost (configure ''10.0.0.5'' ''token'' HueBridgeService) \<and>
   fst (checkReachability (respond 500 (Inr JNull))
          (configure ''10.0.0.5'' ''token'' HueBridgeService, [])) = Reachable \<and>
   map url (snd (snd (checkReachability (respond 500 (Inr JNull))
          (configure ''10.0.0.5'' ''token'' HueBridgeService, [])))) = [''https://10.0.0.5/api'']"
proof -
  have "respond 500 (Inr JNull) []
          (probe_request (configure ''10.0.0.5'' ''token'' HueBridgeService)) =
        Inr \<lparr>status = 500, json = Inr JNull\<rparr>"
    by (simp add: respond_def)
  moreover have "url (probe_request (configure ''10.0.0.5'' ''token'' HueBridgeService)) =
        ''https://10.0.0.5/api''"
    by code_simp
  ultimately show ?thesis
    using remote_not_local
      checkReachability_nonlocal [OF remote_not_local, of "respond 500 (Inr JNull)" "[]"]
    by simp
qed

text \<open>
  Claim C3, as the code has it. When the probe's request fails without a response, the
  probe answers unreachable; the cause is the network when the host is local or the
  failure is an \<^verbatim>\<open>AbortError\<close> (the 5 second timeout), and the certificate for every
  other failure at a host that is not local.
\<close>

theorem probe_failure_cause:
  assumes "nw sent (probe_request h) = Inl e"
  shows "fst (checkReachability nw (h, sent)) =
           Unreachable (if is_localhost h \<or> exn_name e = ''AbortError'' then Network else Cert)"
  using assms by (simp add: checkReachability_result)

text \<open>A host at which the request times out: the cause is the network.\<close>

theorem probe_failure_cause_witness:
  "refuse (Native ''AbortError'') []
       (probe_request (configure ''10.0.0.5'' ''token'' HueBridgeService)) =
     Inl (Native ''AbortError'') \<and>
   fst (checkReachability (refuse (Native ''AbortError''))
       (configure ''10.0.0.5'' ''token'' HueBridgeService, [])) = Unreachable Network"
proof -
  have a: "refuse (Native ''AbortError'') []
       (probe_request (configure ''10.0.0.5'' ''token'' HueBridgeService)) =
     Inl (Native ''AbortError'')"
    by (simp add: refuse_def)
  show ?thesis
    using a remote_not_local
      probe_failure_cause [where nw = "refuse (Native ''AbortError'')" and sent = "[]"
        and h = "configure ''10.0.0.5'' ''token'' HueBridgeService" and e = "Native ''AbortError''"]
    by simp
qed

text \<open>
  A host where nothing listens and the connection is refused at once: \<^verbatim>\<open>fetch\<close> fails
  with a \<^verbatim>\<open>TypeError\<close>, no response completes, and the probe reports the certificate.
\<close>

theorem no_listener_counterexample:
  "refuse (Native ''TypeError'') []
       (probe_request (configure ''10.0.0.5'' ''token'' HueBridgeService)) =
     Inl (Native ''TypeError'') \<and>
   fst (checkReachability (refuse (Native ''TypeError''))
       (configure ''10.0.0.5'' ''token'' HueBridgeService, [])) = Unreachable Cert"
  by code_simp

section \<open>Properties of the connection test\<close>

lemma v2_url_not_v1: "url (v2_lights_request h) \<noteq> url (v1_lights_request h)"
  by (simp add: v2_lights_request_def v1_lights_request_def baseUrlV2_def baseUrlV1_def)

lemma probe_url_not_v1: "url (probe_request h) \<noteq> url (v1_lights_request h)"
  by (simp add: probe_request_def v1_lights_request_def baseUrlV1_def bridgeOrigin_def)

lemma checkReachability_completed:
  "nw sent (probe_request h) = Inr res0 \<Longrightarrow>
   checkReachability nw (h, sent) = (Reachable, h, sent @ [probe_request h])"
  by (simp add: checkReachability_def fetch_def)

lemma tryClipV2_rejected:
  "nw sent (v2_lights_request h) = Inr res \<Longrightarrow> status res = 401 \<or> status res = 403 \<Longrightarrow>
   tryClipV2 nw (h, sent) =
     (Some (Inl InvalidApiKey), h\<lparr>hue_connected := False\<rparr>, sent @ [v2_lights_request h])"
  by (auto simp: tryClipV2_def fetch_def ok_def)

text \<open>
  Claim C2. In a run of \<^verbatim>\<open>testConnection\<close> where the probe's request completes and the
  bridge answers the modern light listing with status 401 or 403, the result is the
  invalid-key failure, the service is left not connected, and the requests sent during
  the run are the probe and the modern listing only: none of them goes to the URL of the
  legacy light listing.
\<close>

theorem testConnection_auth_rejection:
  assumes "nw sent (probe_request h) = Inr res0"
    and "nw (sent @ [probe_request h]) (v2_lights_request h) = Inr res"
    and "status res = 401 \<or> status res = 403"
  shows "fst (testConnection nw (h, sent)) = Inl InvalidApiKey \<and>
         fst (snd (testConnection nw (h, sent))) = h\<lparr>hue_connected := False\<rparr> \<and>
         snd (snd (testConnection nw (h, sent))) = sent @ [probe_request h, v2_lights_request h] \<and>
         (\<forall>r \<in> set (drop (length sent) (snd (snd (testConnection nw (h, sent))))).
            url r \<noteq> url (v1_lights_request h))"
proof -
  have "testConnection nw (h, sent) =
      (Inl InvalidApiKey, h\<lparr>hue_connected := False\<rparr>,
       (sent @ [probe_request h]) @ [v2_lights_request h])"
    unfolding testConnection_def
    by (simp add: checkReachability_completed [of nw sent h res0, OF assms(1)]
          tryClipV2_rejected [of nw "sent @ [probe_request h]" h res, OF assms(2,3)])
  then show ?thesis
    by (simp add: v2_url_not_v1 probe_url_not_v1)
qed

text \<open>
  The bridge at \<^verbatim>\<open>10.0.0.5\<close> answers every request with status 403: with the token
  \<^verbatim>\<open>bad\<close> the test fails for the key after two requests, and the legacy listing
  \<^verbatim>\<open>https://10.0.0.5/api/bad/lights\<close> is not among them.
\<close>

theorem testConnection_auth_rejection_witness:
  "fst (testConnection (respond 403 (Inr (JObj [])))
          (configure ''10.0.0.5'' ''bad'' HueBridgeService, [])) = Inl InvalidApiKey \<and>
   map url (snd (snd (testConnection (respond 403 (Inr (JObj [])))
          (configure ''10.0.0.5'' ''bad'' HueBridgeService, [])))) =
     [''https://10.0.0.5/api'', ''https://10.0.0.5/clip/v2/resource/light''] \<and>
   url (v1_lights_request (configure ''10.0.0.5'' ''bad'' HueBridgeService)) =
     ''https://10.0.0.5/api/bad/lights''"
proof -
  let ?h = "configure ''10.0.0.5'' ''bad'' HueBridgeService"
  let ?res = "\<lparr>status = 403, json = Inr (JObj [])\<rparr>"
  have p: "respond 403 (Inr (JObj [])) [] (probe_request ?h) = Inr ?res"
    by (simp add: respond_def)
  have v: "respond 403 (Inr (JObj [])) ([] @ [probe_request ?h]) (v2_lights_request ?h) = Inr ?res"
    by (simp add: respond_def)
  have s: "status ?res = 401 \<or> status ?res = 403"
    by simp
  have u: "url (probe_request ?h) = ''https://10.0.0.5/api''"
    "url (v2_lights_request ?h) = ''https://10.0.0.5/clip/v2/resource/light''"
    "url (v1_lights_request ?h) = ''https://10.0.0.5/api/bad/lights''"
    by code_simp+
  show ?thesis
    using testConnection_auth_rejection
      [of "respond 403 (Inr (JObj []))" "[]" ?h ?res ?res, OF p v s] u
    by simp
qed

section \<open>Properties of the light and room operations\<close>

lemma getLights_service: "fst (snd (getLights nw (h, sent))) = h"
  by (simp add: getLights_def fetch_def)

lemma getRooms_service: "fst (snd (getRooms nw (h, sent))) = h"
  by (simp add: getRooms_def fetch_def)

lemma setLightColor_service: "fst (snd (setLightColor nw i c b (h, sent))) = h"
  by (simp add: setLightColor_def fetch_def)

lemma setGroupedLightColor_service: "fst (snd (setGroupedLightColor nw i c b (h, sent))) = h"
  by (simp add: setGroupedLightColor_def fetch_def)

lemma turnOff_service: "fst (snd (turnOff nw i (h, sent))) = h"
  by (simp add: turnOff_def fetch_def)

lemma turnOffGroup_service: "fst (snd (turnOffGroup nw i (h, sent))) = h"
  by (simp add: turnOffGroup_def fetch_def)

lemma signalLight_service: "fst (snd (signalLight nw i (h, sent))) = h"
  by (simp add: signalLight_def fetch_def)

lemma run_operation_service: "fst (snd (run_operation nw opn (h, sent))) = h"
  by (cases opn)
    (simp_all add: getLights_service getRooms_service setLightColor_service
       setGroupedLightColor_service turnOff_service turnOffGroup_service signalLight_service)

lemma run_session_service: "fst (run_session nw ops (h, sent)) = h"
proof (induction ops arbitrary: sent)
  case Nil
  then show ?case by simp
next
  case (Cons opn ops)
  obtain r h' sent' where e: "run_operation nw opn (h, sent) = (r, h', sent')"
    by (cases "run_operation nw opn (h, sent)") auto
  then have "h' = h"
    using run_operation_service [of nw opn h sent] by simp
  with e Cons.IH [of sent'] show ?case by simp
qed

lemma tryClipV2_cases:
  "tryClipV2 nw (h, sent) = (r, h', sent') \<Longrightarrow>
     (r = Some (Inr V2) \<and> h' = h\<lparr>hue_connected := True, hue_apiVersion := Some V2\<rparr>) \<or>
     (r = Some (Inl InvalidApiKey) \<and> h' = h\<lparr>hue_connected := False\<rparr>) \<or>
     (r = None \<and> h' = h)"
  by (auto simp: tryClipV2_def fetch_def split: sum.splits if_splits)

lemma fallbackV1_cases:
  "fallbackV1 nw (h, sent) = (r, h', sent') \<Longrightarrow>
     (r = Some (Inr V1) \<and> h' = h\<lparr>hue_connected := True, hue_apiVersion := Some V1\<rparr>) \<or>
     ((\<exists>d. r = Some (Inl (ApiKeyRejected d))) \<and> h' = h\<lparr>hue_connected := False\<rparr>) \<or>
     (r = None \<and> (h' = h \<or> h' = h\<lparr>hue_connected := False\<rparr>))"
  by (auto simp: fallbackV1_def fetch_def split: sum.splits if_splits)

lemma testConnection_success:
  assumes "testConnection nw (h, sent) = (Inr v, h', sent')"
  shows "h' = h\<lparr>hue_connected := True, hue_apiVersion := Some v\<rparr>"
proof -
  obtain r0 sent0 where c: "checkReachability nw (h, sent) = (r0, h, sent0)"
    using checkReachability_service [of nw h sent]
    by (cases "checkReachability nw (h, sent)") auto
  show ?thesis
  proof (cases r0)
    case (Unreachable x)
    with c assms show ?thesis
      by (cases x) (simp_all add: testConnection_def)
  next
    case Reachable
    obtain r2 h2 sent2 where t: "tryClipV2 nw (h, sent0) = (r2, h2, sent2)"
      by (cases "tryClipV2 nw (h, sent0)") auto
    obtain r3 h3 sent3 where f: "fallbackV1 nw (h2, sent2) = (r3, h3, sent3)"
      by (cases "fallbackV1 nw (h2, sent2)") auto
    from assms c Reachable t f tryClipV2_cases [OF t] fallbackV1_cases [OF f]
    show ?thesis
      by (auto simp: testConnection_def split: option.splits)
  qed
qed

text \<open>
  Claim C7. When \<^verbatim>\<open>testConnection\<close> succeeds with version \<open>v\<close>, the service holds \<open>v\<close>
  as its negotiated version, and after any sequence of the operations \<^verbatim>\<open>getLights\<close>,
  \<^verbatim>\<open>getRooms\<close>, \<^verbatim>\<open>setLightColor\<close>, \<^verbatim>\<open>setGroupedLightColor\<close>, \<^verbatim>\<open>turnOff\<close>,
  \<^verbatim>\<open>turnOffGroup\<close> and \<^verbatim>\<open>signalLight\<close>, whether they return or raise, the negotiated
  version is still \<open>v\<close> and the stored host and credential are the same. Each single
  operation, from any state, leaves the three unchanged.
\<close>

theorem negotiated_version_stable:
  assumes "testConnection nw (h, sent) = (Inr v, h', sent')"
  shows "hue_apiVersion h' = Some v \<and>
         hue_apiVersion (fst (run_session nw ops (h', sent'))) = Some v \<and>
         hue_bridgeIp (fst (run_session nw ops (h', sent'))) = hue_bridgeIp h' \<and>
         hue_apiKey (fst (run_session nw ops (h', sent'))) = hue_apiKey h' \<and>
         (\<forall>opn w. hue_apiVersion (fst (snd (run_operation nw opn w))) = hue_apiVersion (fst w) \<and>
                  hue_bridgeIp (fst (snd (run_operation nw opn w))) = hue_bridgeIp (fst w) \<and>
                  hue_apiKey (fst (snd (run_operation nw opn w))) = hue_apiKey (fst w))"
proof -
  have "hue_apiVersion h' = Some v"
    using testConnection_success [OF assms] by simp
  moreover have "fst (snd (run_operation nw opn w)) = fst w" for opn w
    using run_operation_service [of nw opn "fst w" "snd w"] by simp
  ultimately show ?thesis
    by (simp add: run_session_service)
qed

text \<open>
  The local simulation at \<^verbatim>\<open>localhost:3100\<close> answers the modern endpoint: the test
  succeeds with the modern version, and a session that lists the rooms, colours a group,
  turns it off and alerts a light leaves version, host and credential as they were.
\<close>

theorem negotiated_version_stable_witness:
  "fst (testConnection (respond 200 (Inr (JObj [(''data'', JArr [])])))
          (configure ''localhost:3100'' ''x'' HueBridgeService, [])) = Inr V2 \<and>
   fst (run_session (respond 200 (Inr (JObj [(''data'', JArr [])])))
          [GetRooms, SetGroupedLightColor ''group-2'' \<lparr>xy_x = 17 / 100, xy_y = 70 / 100\<rparr> 80,
           TurnOffGroup ''group-2'', SignalLight ''light-2a'']
          (snd (testConnection (respond 200 (Inr (JObj [(''data'', JArr [])])))
                  (configure ''localhost:3100'' ''x'' HueBridgeService, [])))) =
     \<lparr>hue_bridgeIp = Some ''localhost:3100'', hue_apiKey = Some ''x'', hue_connected = True,
      hue_apiVersion = Some V2\<rparr>"
proof -
  let ?nw = "respond 200 (Inr (JObj [(''data'', JArr [])]))"
  let ?h = "configure ''localhost:3100'' ''x'' HueBridgeService"
  let ?ops = "[GetRooms, SetGroupedLightColor ''group-2'' \<lparr>xy_x = 17 / 100, xy_y = 70 / 100\<rparr> 80,
           TurnOffGroup ''group-2'', SignalLight ''light-2a'']"
  obtain r h' sent' where t: "testConnection ?nw (?h, []) = (r, h', sent')"
    by (cases "testConnection ?nw (?h, [])") auto
  have "fst (testConnection ?nw (?h, [])) = Inr V2"
    by code_simp
  with t have r: "r = Inr V2" by simp
  have "fst (snd (testConnection ?nw (?h, []))) =
      \<lparr>hue_bridgeIp = Some ''localhost:3100'', hue_apiKey = Some ''x'', hue_connected = True,
       hue_apiVersion = Some V2\<rparr>"
    by code_simp
  with t have h': "h' = \<lparr>hue_bridgeIp = Some ''localhost:3100'', hue_apiKey = Some ''x'',
       hue_connected = True, hue_apiVersion = Some V2\<rparr>"
    by simp
  have "fst (run_session ?nw ?ops (h', sent')) = h'"
    by (rule run_session_service)
  then show ?thesis
    using negotiated_version_stable [of ?nw ?h "[]" V2 h' sent' ?ops] t r h' by simp
qed

lemma getLights_sent: "snd (snd (getLights nw (h, sent))) = sent @ [lights_request h]"
  by (simp add: getLights_def fetch_def lights_request_def)

lemma getRooms_sent: "snd (snd (getRooms nw (h, sent))) = sent @ [rooms_request h]"
  by (simp add: getRooms_def fetch_def rooms_request_def)

lemma getLights_result:
  "fst (getLights nw (h, sent)) =
     bindE (nw sent (lights_request h)) (\<lambda>res.
       if \<not> ok res then Inl (Error ''Failed to fetch lights'')
       else bindE (json res) (\<lambda>data.
         if hue_apiVersion h = Some V2 then
           bindE (getprop data ''data'') (\<lambda>d. Inr (if truthy d then d else JArr []))
         else
           bindE (entries data) (\<lambda>es. bindE (mapE lightOfV1 es) (\<lambda>ls. Inr (JArr ls)))))"
  by (cases "hue_apiVersion h = Some V2")
    (simp_all add: getLights_def fetch_def lights_request_def cong: if_cong)

lemma getRooms_result:
  "fst (getRooms nw (h, sent)) =
     bindE (nw sent (rooms_request h)) (\<lambda>res.
       if \<not> ok res then Inl (Error ''Failed to fetch rooms'')
       else bindE (json res) (\<lambda>data.
         if hue_apiVersion h = Some V2 then
           bindE (getprop data ''data'') (\<lambda>d. Inr (if truthy d then d else JArr []))
         else
           bindE (entries data) (\<lambda>es.
           bindE (filterE isRoomV1 es) (\<lambda>rs.
           bindE (mapE roomOfV1 rs) (\<lambda>rooms. Inr (JArr rooms))))))"
  by (cases "hue_apiVersion h = Some V2")
    (simp_all add: getRooms_def fetch_def rooms_request_def cong: if_cong)

text \<open>
  Claim C8, as the code has it. Each of the two list operations sends one request. When
  the request fails, the exception of \<^verbatim>\<open>fetch\<close> is raised; when the response has a
  status outside 200 to 299, an \<^verbatim>\<open>Error\<close> with the message "Failed to fetch lights"
  (or "rooms") is raised; when the body cannot be parsed, the exception of
  \<^verbatim>\<open>res.json()\<close> is raised. A body that parses is not checked further: under the
  modern protocol a parsed body other than \<^verbatim>\<open>null\<close> whose \<^verbatim>\<open>data\<close> member is missing
  or falsy gives the empty list as a success.
\<close>

theorem list_operation_failures:
  assumes "f = getLights \<and> req = lights_request h \<and> msg = ''Failed to fetch lights'' \<or>
           f = getRooms \<and> req = rooms_request h \<and> msg = ''Failed to fetch rooms''"
  shows "snd (snd (f nw (h, sent))) = sent @ [req] \<and>
         (\<forall>e. nw sent req = Inl e \<longrightarrow> fst (f nw (h, sent)) = Inl e) \<and>
         (\<forall>res. nw sent req = Inr res \<and> \<not> ok res \<longrightarrow> fst (f nw (h, sent)) = Inl (Error msg)) \<and>
         (\<forall>res e. nw sent req = Inr res \<and> ok res \<and> json res = Inl e \<longrightarrow>
            fst (f nw (h, sent)) = Inl e) \<and>
         (\<forall>res data. nw sent req = Inr res \<and> ok res \<and> json res = Inr data \<and>
            hue_apiVersion h = Some V2 \<and> \<not> nullish data \<and> \<not> truthy (own data ''data'') \<longrightarrow>
            fst (f nw (h, sent)) = Inr (JArr []))"
  using assms
  by (auto simp: getLights_sent getRooms_sent getLights_result getRooms_result bindE_def getprop_def)

text \<open>A bridge that answers 404: listing the lights raises the error of the operation.\<close>

theorem list_operation_failures_witness:
  "fst (getLights (respond 404 (Inr (JObj []))) (negotiated V2, [])) =
     Inl (Error ''Failed to fetch lights'') \<and>
   snd (snd (getLights (respond 404 (Inr (JObj []))) (negotiated V2, []))) =
     [lights_request (negotiated V2)]"
proof -
  have "respond 404 (Inr (JObj [])) [] (lights_request (negotiated V2)) =
      Inr \<lparr>status = 404, json = Inr (JObj [])\<rparr>"
    by (simp add: respond_def)
  moreover have "\<not> ok \<lparr>status = 404, json = Inr (JObj [])\<rparr>"
    by (simp add: ok_def)
  ultimately show ?thesis
    using list_operation_failures [where f = getLights and req = "lights_request (negotiated V2)"
        and h = "negotiated V2" and msg = "''Failed to fetch lights''"
        and nw = "respond 404 (Inr (JObj []))" and sent = "[]"]
    by simp
qed

text \<open>
  Under the modern protocol, a bridge that answers 200 with the body \<^verbatim>\<open>{}\<close>, which has
  no \<^verbatim>\<open>data\<close> member: listing the lights succeeds with the empty list.
\<close>

theorem malformed_body_counterexample:
  "fst (getLights (respond 200 (Inr (JObj []))) (negotiated V2, [])) = Inr (JArr [])"
  by code_simp

text \<open>
  Under the legacy protocol, the body by which a bridge rejects a credential, with
  status 200, is listed as one light named \<^verbatim>\<open>undefined\<close>.
\<close>

lemma legacy_error_body_listed:
  "fst (getLights
     (respond 200 (Inr (JArr [JObj [(''error'', JObj [(''description'', JStr ''unauthorized user'')])]])))
     (negotiated V1, [])) =
   Inr (JArr [JObj [(''id'', JStr ''0''), (''metadata'', JObj [(''name'', JUndefined)]),
                    (''on'', JObj [(''on'', JUndefined)]),
                    (''dimming'', JObj [(''brightness'', JUndefined)]),
                    (''color'', JUndefined)]])"
  by code_simp

section \<open>Properties of the colour commands\<close>

lemma setLightColor_sent:
  "snd (snd (setLightColor nw i c b (h, sent))) =
     sent @ [if hue_apiVersion h = Some V2
             then put_request (baseUrlV2 h @ ''/resource/light/'' @ i) (headersV2 h) (bodyV2 c b)
             else put_request (baseUrlV1 h @ ''/lights/'' @ i @ ''/state'') (headersV1 h) (bodyV1 c b)]"
  by (simp add: setLightColor_def fetch_def)

lemma setGroupedLightColor_sent:
  "snd (snd (setGroupedLightColor nw i c b (h, sent))) =
     sent @ [if hue_apiVersion h = Some V2
             then put_request (baseUrlV2 h @ ''/resource/grouped_light/'' @ i) (headersV2 h) (bodyV2 c b)
             else put_request (baseUrlV1 h @ ''/groups/'' @ i @ ''/action'') (headersV1 h) (bodyV1 c b)]"
  by (simp add: setGroupedLightColor_def fetch_def)

lemma Math_round_80: "Math_round (80 / 100 * 254) = 203"
  by (simp add: Math_round_def floor_eq_iff)

lemma Math_round_25: "Math_round (25 / 100 * 254) = 64"
  by (simp add: Math_round_def floor_eq_iff)

lemma Math_round_bounds:
  assumes "0 \<le> b" "b \<le> 100"
  shows "0 \<le> Math_round (b / 100 * 254)" "Math_round (b / 100 * 254) \<le> 254"
proof -
  have "0 \<le> b / 100 * 254 + 1 / 2" using assms by simp
  then show "0 \<le> Math_round (b / 100 * 254)"
    unfolding Math_round_def by simp
  have "b / 100 * 254 + 1 / 2 < 255" using assms by simp
  then have "\<lfloor>b / 100 * 254 + 1 / 2\<rfloor> < 255"
    by (simp add: floor_less_iff)
  then show "Math_round (b / 100 * 254) \<le> 254"
    unfolding Math_round_def by simp
qed

lemma Math_round_nearest: "\<bar>of_int (Math_round x) - x\<bar> \<le> 1 / 2"
proof -
  have "of_int \<lfloor>x + 1 / 2\<rfloor> \<le> x + 1 / 2" "x + 1 / 2 < of_int \<lfloor>x + 1 / 2\<rfloor> + 1"
    by linarith+
  then show ?thesis
    unfolding Math_round_def by linarith
qed

text \<open>
  Claim C4, as the code has it. Under the legacy protocol,
  \<^verbatim>\<open>setGroupedLightColor("group-2", {x: 0.17, y: 0.70}, 80)\<close> sends one \<^verbatim>\<open>PUT\<close> to
  \<^verbatim>\<open>.../groups/group-2/action\<close> with the body \<^verbatim>\<open>{on: true, bri: 203, xy: [0.17, 0.70]}\<close>:
  0.8 * 254 is 203.2, which rounds to 203.
\<close>

theorem legacy_group_scenario:
  assumes "hue_apiVersion h = Some V1"
  shows "snd (snd (setGroupedLightColor nw ''group-2'' \<lparr>xy_x = 17 / 100, xy_y = 70 / 100\<rparr> 80 (h, sent))) =
           sent @ [\<lparr>req_method = ''PUT'', url = baseUrlV1 h @ ''/groups/group-2/action'',
                    headers = headersV1 h,
                    body = Some (JObj [(''on'', JBool True), (''bri'', JNum 203),
                                       (''xy'', JArr [JNum (17 / 100), JNum (70 / 100)])]),
                    abort_after = None\<rparr>] \<and>
         Math_round (80 / 100 * 254) = 203"
  using assms Math_round_80
  by (simp add: setGroupedLightColor_sent put_request_def bodyV1_def)

text \<open>The same call on the service that negotiated the legacy protocol with 10.0.0.5.\<close>

theorem legacy_group_scenario_witness:
  "hue_apiVersion (negotiated V1) = Some V1 \<and>
   map url (snd (snd (setGroupedLightColor (respond 200 (Inr (JArr []))) ''group-2''
      \<lparr>xy_x = 17 / 100, xy_y = 70 / 100\<rparr> 80 (negotiated V1, [])))) =
     [''https://10.0.0.5/api/token/groups/group-2/action''] \<and>
   map body (snd (snd (setGroupedLightColor (respond 200 (Inr (JArr []))) ''group-2''
      \<lparr>xy_x = 17 / 100, xy_y = 70 / 100\<rparr> 80 (negotiated V1, [])))) =
     [Some (JObj [(''on'', JBool True), (''bri'', JNum 203),
                  (''xy'', JArr [JNum (17 / 100), JNum (70 / 100)])])]"
proof -
  have v: "hue_apiVersion (negotiated V1) = Some V1"
    by (simp add: negotiated_def)
  have u: "baseUrlV1 (negotiated V1) = ''https://10.0.0.5/api/token''"
    by code_simp
  show ?thesis
    using v u legacy_group_scenario [OF v, of "respond 200 (Inr (JArr []))" "[]"]
    by simp
qed

text \<open>The body of that call is not the one with \<^verbatim>\<open>bri: 204\<close>.\<close>

theorem legacy_group_scenario_counterexample:
  "map body (snd (snd (setGroupedLightColor (respond 200 (Inr (JArr []))) ''group-2''
      \<lparr>xy_x = 17 / 100, xy_y = 70 / 100\<rparr> 80 (negotiated V1, [])))) \<noteq>
   [Some (JObj [(''on'', JBool True), (''bri'', JNum 204),
                (''xy'', JArr [JNum (17 / 100), JNum (70 / 100)])])]"
  using Math_round_80
  by (simp add: setGroupedLightColor_sent put_request_def bodyV1_def negotiated_def)

lemma Math_round_percent:
  "Math_round (of_int n / 100 * 254) = (n * 254 + 50) div 100"
proof -
  have "(of_int n :: rat) / 100 * 254 + 1 / 2 = of_int (n * 254 + 50) / of_int 100"
    by simp
  then show ?thesis
    unfolding Math_round_def by (simp only: floor_divide_of_int_eq)
qed

text \<open>
  Claim C5. For an integer brightness percentage \<open>n\<close> between 0 and 100 (the
  percentages of the signals), \<^verbatim>\<open>setLightColor\<close> and \<^verbatim>\<open>setGroupedLightColor\<close> send
  one request whose body is the modern one under the modern protocol and the legacy one
  otherwise. The modern body carries \<open>n\<close> itself as \<^verbatim>\<open>dimming.brightness\<close>. The legacy
  body carries as \<^verbatim>\<open>bri\<close> the integer \<^verbatim>\<open>Math.round(n / 100 * 254)\<close>, which is
  \<open>(254 n + 50) div 100\<close>, lies between 0 and 254 and is within one half of
  \<open>n / 100 * 254\<close>.
\<close>

theorem brightness_encoding:
  assumes "0 \<le> n" and "n \<le> 100"
  shows "map body (drop (length sent) (snd (snd (setLightColor nw i c (of_int n) (h, sent))))) =
           [Some (if hue_apiVersion h = Some V2 then bodyV2 c (of_int n) else bodyV1 c (of_int n))] \<and>
         map body (drop (length sent) (snd (snd (setGroupedLightColor nw i c (of_int n) (h, sent))))) =
           [Some (if hue_apiVersion h = Some V2 then bodyV2 c (of_int n) else bodyV1 c (of_int n))] \<and>
         own (own (bodyV2 c (of_int n)) ''dimming'') ''brightness'' = JNum (of_int n) \<and>
         own (bodyV1 c (of_int n)) ''bri'' = JNum (of_int (Math_round (of_int n / 100 * 254))) \<and>
         Math_round (of_int n / 100 * 254) = (n * 254 + 50) div 100 \<and>
         0 \<le> Math_round (of_int n / 100 * 254) \<and> Math_round (of_int n / 100 * 254) \<le> 254 \<and>
         \<bar>of_int (Math_round (of_int n / 100 * 254)) - of_int n / 100 * 254\<bar> \<le> (1 / 2 :: rat)"
proof -
  have a: "(0::rat) \<le> of_int n" and b: "(of_int n :: rat) \<le> 100"
    using assms by simp_all
  show ?thesis
    using Math_round_bounds [OF a b] Math_round_nearest [of "of_int n / 100 * 254"]
      Math_round_percent [of n]
    by (simp add: setLightColor_sent setGroupedLightColor_sent put_request_def bodyV2_def bodyV1_def)
qed

text \<open>At 25 percent the exact value is 63.5, a tie: the legacy brightness is 64.\<close>

theorem brightness_encoding_witness:
  "(0::int) \<le> 25 \<and> (25::int) \<le> 100 \<and>
   own (own (bodyV2 \<lparr>xy_x = 17 / 100, xy_y = 70 / 100\<rparr> (of_int 25)) ''dimming'') ''brightness'' =
     JNum 25 \<and>
   own (bodyV1 \<lparr>xy_x = 17 / 100, xy_y = 70 / 100\<rparr> (of_int 25)) ''bri'' = JNum 64"
proof -
  have a: "(0::int) \<le> 25" and b: "(25::int) \<le> 100"
    by simp_all
  show ?thesis
    using brightness_encoding [OF a b, of "[]" "respond 200 (Inr JNull)" "''light-1a''"
        "\<lparr>xy_x = 17 / 100, xy_y = 70 / 100\<rparr>" "negotiated V1"] Math_round_25
    by simp
qed

section \<open>Properties of disconnecting\<close>

text \<open>
  Claim C9, as the code has it. The service has no operation that disconnects;
  \<^verbatim>\<open>handleDisconnect\<close> of the component always succeeds, sets the component's connected
  flag to false, turns demo mode on, empties the displayed protocol version, restores the
  demo rooms and empties the active signals. It keeps the component's host and
  credential and the activity log, and leaves the service object (host, credential,
  connected flag, negotiated version) as it was.
\<close>

theorem handleDisconnect_effect:
  "connected (fst (handleDisconnect (a, service))) = False \<and>
   demoMode (fst (handleDisconnect (a, service))) = True \<and>
   apiVersion (fst (handleDisconnect (a, service))) = [] \<and>
   rooms (fst (handleDisconnect (a, service))) = DEMO_ROOMS \<and>
   roomSignals (fst (handleDisconnect (a, service))) = Map.empty \<and>
   bridgeIp (fst (handleDisconnect (a, service))) = bridgeIp a \<and>
   apiKey (fst (handleDisconnect (a, service))) = apiKey a \<and>
   logs (fst (handleDisconnect (a, service))) = logs a \<and>
   snd (handleDisconnect (a, service)) = service"
  by (simp add: handleDisconnect_def showToast_def)

text \<open>
  Disconnecting while connected with the modern protocol: the component still holds host
  and credential, and the service still holds them, its version and its connected flag.
\<close>

theorem disconnect_counterexample:
  "bridgeIp (fst (handleDisconnect (connected_app, negotiated V2))) = ''10.0.0.5'' \<and>
   apiKey (fst (handleDisconnect (connected_app, negotiated V2))) = ''token'' \<and>
   hue_bridgeIp (snd (handleDisconnect (connected_app, negotiated V2))) = Some ''10.0.0.5'' \<and>
   hue_apiKey (snd (handleDisconnect (connected_app, negotiated V2))) = Some ''token'' \<and>
   hue_apiVersion (snd (handleDisconnect (connected_app, negotiated V2))) = Some V2 \<and>
   hue_connected (snd (handleDisconnect (connected_app, negotiated V2))) = True"
  by (simp add: handleDisconnect_def showToast_def connected_app_def negotiated_def)

end
